theory Spec2Isabelle
  imports Complex_Main "HOL-Library.Word" "HOL-Library.Log_Nat"
begin

unbundle bit_operations_syntax

section \<open>Single-precision arithmetic\<close>

text \<open>
  The filter keeps \<open>threshold\<close>, \<open>contourFilter\<close> and \<open>smoothContour\<close> as C++ \<open>float\<close>
  and multiplies two of them (\<open>100 * tf->smoothContour\<close>, \<open>backgroundMask.total() *
  tf->contourFilter\<close>) before casting to an integer, so the rounding of the product
  decides the integer. A finite binary floating-point number is written as a pair
  \<open>(m, e)\<close> standing for \<open>m * 2 ^ e\<close>. An exact product is rounded to binary32 (24
  significant bits, least exponent \<open>- 149\<close>, ties to even), the IEEE 754 default that a
  \<open>float * float\<close> of the source is evaluated with where \<open>float\<close> expressions are
  computed in single precision, as on the 64-bit targets of the plugin. Infinities and
  NaN are outside the model: the magnitudes of this program stay far below \<open>2 ^ 128\<close>.
\<close>

type_synonym dyadic = "int \<times> int"

definition dy_val :: "dyadic \<Rightarrow> rat" where
  "dy_val d = (case d of (m, e) \<Rightarrow>
     if 0 \<le> e then of_int m * 2 ^ nat e else of_int m / 2 ^ nat (- e))"

definition is_f32 :: "dyadic \<Rightarrow> bool" where
  "is_f32 d = (case d of (m, e) \<Rightarrow> \<bar>m\<bar> < 2 ^ 24 \<and> - 149 \<le> e \<and> e \<le> 104)"

text \<open>\<open>rne m s\<close> is \<open>m / 2 ^ s\<close> rounded to the nearest integer, ties to the even one.\<close>

definition rne :: "int \<Rightarrow> nat \<Rightarrow> int" where
  "rne m s = (let q = m div 2 ^ s; r = m mod 2 ^ s in
     if 2 * r < 2 ^ s then q else if 2 ^ s < 2 * r then q + 1
     else if even q then q else q + 1)"

definition f32_round :: "dyadic \<Rightarrow> dyadic" where
  "f32_round d = (case d of (m, e) \<Rightarrow>
     let s = max (bitlen \<bar>m\<bar> - 24) (- 149 - e) in
     if s \<le> 0 then (m, e) else (rne m (nat s), e + s))"

definition f32_mul :: "dyadic \<Rightarrow> dyadic \<Rightarrow> dyadic" where
  "f32_mul a b = f32_round (fst a * fst b, snd a + snd b)"

text \<open>An integer operand of a \<open>float\<close> product is converted to \<open>float\<close> first.\<close>

definition f32_of_int :: "int \<Rightarrow> dyadic" where
  "f32_of_int n = f32_round (n, 0)"

text \<open>The casts \<open>(int)\<close> and \<open>(int64_t)\<close> of a \<open>float\<close> drop the fraction (towards zero).\<close>

definition trunc_to_int :: "dyadic \<Rightarrow> int" where
  "trunc_to_int d = (case d of (m, e) \<Rightarrow>
     if 0 \<le> e then m * 2 ^ nat e else sgn m * (\<bar>m\<bar> div 2 ^ nat (- e)))"

text \<open>
  The result is an \<open>int\<close> of 32 bits or an \<open>int64_t\<close>. A value that the target type
  does not hold is undefined in C++; the conversion instruction of x86-64 then gives
  the least value of the type, and the model follows it.
\<close>

definition float_to_int32 :: "dyadic \<Rightarrow> int" where
  "float_to_int32 d =
     (let t = trunc_to_int d in if - (2 ^ 31) \<le> t \<and> t < 2 ^ 31 then t else - (2 ^ 31))"

definition float_to_int64 :: "dyadic \<Rightarrow> int" where
  "float_to_int64 d =
     (let t = trunc_to_int d in if - (2 ^ 63) \<le> t \<and> t < 2 ^ 63 then t else - (2 ^ 63))"

text \<open>The cast \<open>(int)\<close> of an \<open>int64_t\<close> keeps the low 32 bits, read as two's complement.\<close>

definition cast_int :: "int \<Rightarrow> int" where
  "cast_int d = (d + 2 ^ 31) mod 2 ^ 32 - 2 ^ 31"

section \<open>Data of the filter\<close>

datatype error = OutOfRange | NullSession | OrtError | CvError | LengthError

datatype video_format = VIDEO_FORMAT_NONE | VIDEO_FORMAT_I420 | VIDEO_FORMAT_NV12
  | VIDEO_FORMAT_YUY2 | VIDEO_FORMAT_UYVY | VIDEO_FORMAT_RGBA | VIDEO_FORMAT_BGR3

text \<open>
  \<open>struct video_scale_info\<close>: the range and the colour space are the defaults in every
  use and are left out.
\<close>

record video_scale_info =
  si_format :: video_format
  si_width :: nat
  si_height :: nat

text \<open>
  A converter of the media-io library. \<open>vs_id\<close> tells one created instance from
  another; \<open>vs_dst\<close> and \<open>vs_src\<close> are the parameters it was created with.
\<close>

record video_scaler =
  vs_id :: nat
  vs_dst :: video_scale_info
  vs_src :: video_scale_info

text \<open>An inference session: the instance, the model file it was built from and the
  shapes the model declares.\<close>

record ort_session =
  ses_id :: nat
  ses_path :: string
  ses_inputShape :: "int list"
  ses_outputShape :: "int list"

type_synonym uchar = nat
type_synonym bgr = "uchar \<times> uchar \<times> uchar"

text \<open>\<open>cv::Size\<close> is built as \<open>Size(width, height)\<close>; \<open>cv::Mat\<close> as \<open>Mat(rows, cols)\<close>.\<close>

record cv_Size =
  sz_width :: int
  sz_height :: int

record 'a Mat =
  rows :: int
  cols :: int
  elems :: "'a list"

type_synonym contour = "(int \<times> int) list"

record obs_source_frame =
  width :: nat
  height :: nat
  format :: video_format
  data :: "nat list"

text \<open>
  \<open>struct background_removal_filter\<close>. The names, the tensors and the memory info only
  wrap the two value buffers and are left out. \<open>fresh\<close> is not a field of the struct:
  it numbers the sessions and converters created so far, so that two instances can be
  told apart.
\<close>

record background_removal_filter =
  session :: "ort_session option"
  inputDims :: "int list"
  outputDims :: "int list"
  outputTensorValues :: "rat list"
  inputTensorValues :: "rat list"
  threshold :: dyadic
  backgroundColor :: bgr
  contourFilter :: dyadic
  smoothContour :: dyadic
  useGPU :: bool
  modelSelection :: string
  scalerToBGR :: "video_scaler option"
  scalerFromBGR :: "video_scaler option"
  fresh :: nat

text \<open>The settings object \<open>obs_data_t\<close>, read by \<open>filter_update\<close>; the three sliders
  are \<open>double\<close>.\<close>

record obs_data =
  set_threshold :: dyadic
  set_replaceColor :: "64 word"
  set_contour_filter :: dyadic
  set_smooth_contour :: dyadic
  set_useGPU :: bool
  set_model_select :: string

text \<open>
  What the filter consumes from OBS, ONNX Runtime and OpenCV without implementing it.
  \<open>obs_module_file\<close> returns no path for a file the module does not have;
  \<open>ort_new_session\<close> returns nothing where the constructor of \<open>Ort::Session\<close> throws,
  and the input and output shapes of the model otherwise; \<open>ort_run\<close> returns nothing
  where \<open>Run\<close> throws; \<open>cv_boxFilter\<close> returns nothing where \<open>cv::boxFilter\<close> throws.
  \<open>interp_rgb\<close> and \<open>interp_mask\<close> are the interpolation of \<open>cv::resize\<close>, given the
  source and the rows and columns asked for. \<open>video_scaler_create\<close> tells, for the
  destination and the source parameters, whether the creation of a converter succeeds.
  \<open>uninitialized_pixels\<close> stands for the contents of a \<open>cv::Mat\<close> of the given rows and
  columns that was allocated and never written.
\<close>

record lib =
  obs_module_file :: "string \<Rightarrow> string option"
  ort_new_session :: "string \<Rightarrow> bool \<Rightarrow> (int list \<times> int list) option"
  ort_run :: "ort_session \<Rightarrow> rat list \<Rightarrow> rat list option"
  video_scaler_create :: "video_scale_info \<Rightarrow> video_scale_info \<Rightarrow> bool"
  uninitialized_pixels :: "int \<Rightarrow> int \<Rightarrow> bgr list"
  video_scaler_to :: "video_scaler \<Rightarrow> obs_source_frame \<Rightarrow> bgr list"
  video_scaler_from :: "video_scaler \<Rightarrow> bgr Mat \<Rightarrow> obs_source_frame \<Rightarrow> nat list"
  interp_rgb :: "bgr Mat \<Rightarrow> int \<Rightarrow> int \<Rightarrow> bgr list"
  interp_mask :: "uchar Mat \<Rightarrow> int \<Rightarrow> int \<Rightarrow> uchar list"
  cv_findContours :: "uchar Mat \<Rightarrow> contour list"
  cv_drawContours :: "uchar Mat \<Rightarrow> contour list \<Rightarrow> uchar Mat"
  cv_boxFilter :: "uchar Mat \<Rightarrow> int \<Rightarrow> uchar Mat option"

definition MODEL_SINET :: string where
  "MODEL_SINET = ''SINet_Softmax_simple.onnx''"

definition MODEL_MODNET :: string where
  "MODEL_MODNET = ''modnet_simple.onnx''"

section \<open>Loading the model\<close>

definition vectorProduct :: "int list \<Rightarrow> int" where
  "vectorProduct v = foldl (*) 1 v"

text \<open>\<open>std::vector::resize\<close>: a negative count, as a \<open>size_t\<close>, is beyond \<open>max_size\<close>
  and the call throws.\<close>

definition vector_resize :: "rat list \<Rightarrow> int \<Rightarrow> error + rat list" where
  "vector_resize v n =
     (if n < 0 then Inl LengthError
      else Inr (take (nat n) v @ replicate (nat n - length v) 0))"

definition createOrtSession ::
  "lib \<Rightarrow> background_removal_filter \<Rightarrow> error + background_removal_filter" where
  "createOrtSession l tf =
     (case obs_module_file l (modelSelection tf) of
        None \<Rightarrow> Inr tf
      | Some modelFilepath \<Rightarrow>
          (case ort_new_session l modelFilepath (useGPU tf) of
             None \<Rightarrow> Inr tf
           | Some (inShape, outShape) \<Rightarrow>
               (case vector_resize (outputTensorValues tf) (vectorProduct outShape) of
                  Inl e \<Rightarrow> Inl e
                | Inr outVals \<Rightarrow>
                    (case vector_resize (inputTensorValues tf) (vectorProduct inShape) of
                       Inl e \<Rightarrow> Inl e
                     | Inr inVals \<Rightarrow>
                         Inr (tf\<lparr>session := Some \<lparr>ses_id = fresh tf, ses_path = modelFilepath,
                                     ses_inputShape = inShape, ses_outputShape = outShape\<rparr>,
                                 fresh := fresh tf + 1,
                                 outputDims := outShape, outputTensorValues := outVals,
                                 inputDims := inShape, inputTensorValues := inVals\<rparr>)))))"

section \<open>Converters and settings\<close>

definition destroyScalers :: "background_removal_filter \<Rightarrow> background_removal_filter" where
  "destroyScalers tf = tf\<lparr>scalerToBGR := None, scalerFromBGR := None\<rparr>"

definition filter_update ::
  "lib \<Rightarrow> obs_data \<Rightarrow> background_removal_filter \<Rightarrow> error + background_removal_filter" where
  "filter_update l settings tf =
     (let color = set_replaceColor settings;
          tf1 = tf\<lparr>threshold := f32_round (set_threshold settings),
                   backgroundColor := (unat (color AND 0xff),
                                       unat (drop_bit 8 color AND 0xff),
                                       unat (drop_bit 16 color AND 0xff)),
                   contourFilter := f32_round (set_contour_filter settings),
                   smoothContour := f32_round (set_smooth_contour settings),
                   useGPU := set_useGPU settings,
                   modelSelection := set_model_select settings\<rparr>
      in createOrtSession l (destroyScalers tf1))"

text \<open>\<open>filter_create\<close> starts from the zero-filled struct of \<open>bzalloc\<close>.\<close>

definition zeroed_filter :: background_removal_filter where
  "zeroed_filter = \<lparr>session = None, inputDims = [], outputDims = [],
     outputTensorValues = [], inputTensorValues = [], threshold = (0, 0),
     backgroundColor = (0, 0, 0), contourFilter = (0, 0), smoothContour = (0, 0),
     useGPU = False, modelSelection = [], scalerToBGR = None, scalerFromBGR = None,
     fresh = 0\<rparr>"

definition filter_create :: "lib \<Rightarrow> obs_data \<Rightarrow> error + background_removal_filter" where
  "filter_create l settings = filter_update l settings zeroed_filter"

text \<open>
  \<open>video_scaler_create\<close> stores a converter through its first argument when it succeeds
  and leaves the pointer as it is, null after \<open>destroyScalers\<close>, when it fails. The
  source ignores its result. A created converter is numbered after the instances
  created before.
\<close>

definition initializeScalers ::
  "lib \<Rightarrow> cv_Size \<Rightarrow> video_format \<Rightarrow> background_removal_filter
     \<Rightarrow> background_removal_filter" where
  "initializeScalers l frameSize frameFormat tf =
     (let dst = \<lparr>si_format = VIDEO_FORMAT_BGR3, si_width = nat (sz_width frameSize),
                 si_height = nat (sz_height frameSize)\<rparr>;
          src = \<lparr>si_format = frameFormat, si_width = nat (sz_width frameSize),
                 si_height = nat (sz_height frameSize)\<rparr>;
          tf1 = destroyScalers tf;
          tf2 = (if video_scaler_create l dst src
                 then tf1\<lparr>scalerToBGR := Some \<lparr>vs_id = fresh tf1, vs_dst = dst, vs_src = src\<rparr>,
                         fresh := fresh tf1 + 1\<rparr>
                 else tf1)
      in if video_scaler_create l src dst
         then tf2\<lparr>scalerFromBGR := Some \<lparr>vs_id = fresh tf2, vs_dst = src, vs_src = dst\<rparr>,
                 fresh := fresh tf2 + 1\<rparr>
         else tf2)"

definition frame_size :: "obs_source_frame \<Rightarrow> cv_Size" where
  "frame_size frame = \<lparr>sz_width = int (width frame), sz_height = int (height frame)\<rparr>"

text \<open>
  \<open>video_scaler_scale\<close> returns at once when the converter pointer is null: the image
  then keeps what its allocation left in it, and the frame keeps its data.
\<close>

definition convertFrameToBGR ::
  "lib \<Rightarrow> obs_source_frame \<Rightarrow> background_removal_filter
     \<Rightarrow> bgr Mat \<times> background_removal_filter" where
  "convertFrameToBGR l frame tf =
     (let frameSize = frame_size frame;
          tf1 = (if scalerToBGR tf = None
                 then initializeScalers l frameSize (format frame) tf else tf)
      in (\<lparr>rows = sz_height frameSize, cols = sz_width frameSize,
           elems = (case scalerToBGR tf1 of
                      None \<Rightarrow> uninitialized_pixels l (sz_height frameSize) (sz_width frameSize)
                    | Some sc \<Rightarrow> video_scaler_to l sc frame)\<rparr>, tf1))"

definition convertBGRToFrame ::
  "lib \<Rightarrow> bgr Mat \<Rightarrow> obs_source_frame \<Rightarrow> background_removal_filter
     \<Rightarrow> obs_source_frame \<times> background_removal_filter" where
  "convertBGRToFrame l imageBGR frame tf =
     (let tf1 = (if scalerFromBGR tf = None
                 then initializeScalers l (frame_size frame) (format frame) tf else tf)
      in ((case scalerFromBGR tf1 of
             None \<Rightarrow> frame
           | Some sc \<Rightarrow> frame\<lparr>data := video_scaler_from l sc imageBGR frame\<rparr>), tf1))"

section \<open>OpenCV operations used by the render call\<close>

definition mat_empty :: "'a Mat \<Rightarrow> bool" where
  "mat_empty m = (rows m \<le> 0 \<or> cols m \<le> 0)"

definition mat_total :: "'a Mat \<Rightarrow> int" where
  "mat_total m = rows m * cols m"

text \<open>\<open>cv::cvtColor(src, dst, COLOR_BGR2RGB)\<close> swaps the outer channels; it asserts
  that the source is not empty.\<close>

definition cvtColor_BGR2RGB :: "bgr Mat \<Rightarrow> error + bgr Mat" where
  "cvtColor_BGR2RGB m =
     (if mat_empty m then Inl CvError
      else Inr (m\<lparr>elems := map (\<lambda>(b, g, r). (r, g, b)) (elems m)\<rparr>))"

text \<open>
  \<open>cv::resize(src, dst, dsize)\<close>: the result has \<open>dsize.height\<close> rows and
  \<open>dsize.width\<close> columns; the call asserts that neither the source nor \<open>dsize\<close> is
  empty. The interpolation itself is the library's.
\<close>

definition cv_resize ::
  "('a Mat \<Rightarrow> int \<Rightarrow> int \<Rightarrow> 'a list) \<Rightarrow> 'a Mat \<Rightarrow> cv_Size \<Rightarrow> error + 'a Mat" where
  "cv_resize interp src dsize =
     (if mat_empty src \<or> sz_width dsize \<le> 0 \<or> sz_height dsize \<le> 0 then Inl CvError
      else Inr \<lparr>rows = sz_height dsize, cols = sz_width dsize,
                elems = interp src (sz_height dsize) (sz_width dsize)\<rparr>)"

definition mat_size :: "'a Mat \<Rightarrow> cv_Size" where
  "mat_size m = \<lparr>sz_width = cols m, sz_height = rows m\<rparr>"

text \<open>\<open>std::vector::at\<close> throws \<open>std::out_of_range\<close> beyond the end.\<close>

definition vector_at :: "'a list \<Rightarrow> nat \<Rightarrow> error + 'a" where
  "vector_at v i = (if i < length v then Inr (v ! i) else Inl OutOfRange)"

text \<open>\<open>cv::contourArea\<close> of a contour of integer points: Green's formula over the
  closed polygon, halved, and its absolute value.\<close>

fun green_sum :: "int \<times> int \<Rightarrow> contour \<Rightarrow> int" where
  "green_sum prev [] = 0"
| "green_sum prev (p # ps) = fst prev * snd p - snd prev * fst p + green_sum p ps"

definition contourArea :: "contour \<Rightarrow> rat" where
  "contourArea c = (if c = [] then 0 else \<bar>of_int (green_sum (last c) c) / 2\<bar>)"

text \<open>\<open>Mat::setTo(value, mask)\<close> stores the value where the mask is not zero; it
  asserts that the mask has the size of the image.\<close>

definition setTo_masked :: "'a Mat \<Rightarrow> 'a \<Rightarrow> uchar Mat \<Rightarrow> error + 'a Mat" where
  "setTo_masked img v msk =
     (if rows msk \<noteq> rows img \<or> cols msk \<noteq> cols img then Inl CvError
      else Inr (img\<lparr>elems := map (\<lambda>(p, k). if k \<noteq> 0 then v else p)
                                  (zip (elems img) (elems msk))\<rparr>))"

text \<open>The comparison of a matrix with a scalar gives 255 where it holds and 0
  elsewhere.\<close>

definition mat_compare :: "('a \<Rightarrow> bool) \<Rightarrow> 'a Mat \<Rightarrow> uchar Mat" where
  "mat_compare P m = \<lparr>rows = rows m, cols = cols m,
     elems = map (\<lambda>v. if P v then 255 else 0) (elems m)\<rparr>"

section \<open>The render call\<close>

text \<open>Lines 356 to 362: to RGB, then resized to the network input size.\<close>

definition resizeToNetwork ::
  "lib \<Rightarrow> background_removal_filter \<Rightarrow> bgr Mat \<Rightarrow> error + bgr Mat" where
  "resizeToNetwork l tf imageBGR =
     (case cvtColor_BGR2RGB imageBGR of
        Inl e \<Rightarrow> Inl e
      | Inr imageRGB \<Rightarrow>
          (case vector_at (inputDims tf) 2 of
             Inl e \<Rightarrow> Inl e
           | Inr d2 \<Rightarrow>
               (case vector_at (inputDims tf) 3 of
                  Inl e \<Rightarrow> Inl e
                | Inr d3 \<Rightarrow>
                    cv_resize (interp_rgb l) imageRGB
                      \<lparr>sz_width = cast_int d2, sz_height = cast_int d3\<rparr>)))"

text \<open>
  Lines 364 to 379: conversion to floating point, the normalisation of the selected
  model and the repacking to channel-major order. The pixel values are written as exact
  rationals: they only feed the inference, which is the library's.
\<close>

definition normalise :: "string \<Rightarrow> bgr \<Rightarrow> rat \<times> rat \<times> rat" where
  "normalise model p = (case p of (c0, c1, c2) \<Rightarrow>
     if model = MODEL_SINET
     then ((of_nat c0 - 102890434 / 1000000) * (1 / (6293292 / 100000) / 255),
           (of_nat c1 - 11125247 / 100000) * (1 / (6282138 / 100000) / 255),
           (of_nat c2 - 12691212 / 100000) * (1 / (66355705 / 1000000) / 255))
     else ((of_nat c0 - 255 / 2) / (255 / 2),
           (of_nat c1 - 255 / 2) / (255 / 2),
           (of_nat c2 - 255 / 2) / (255 / 2)))"

definition hwc_to_chw :: "('a \<times> 'a \<times> 'a) list \<Rightarrow> 'a list" where
  "hwc_to_chw src = map fst src @ map (fst \<circ> snd) src @ map (snd \<circ> snd) src"

definition preprocess :: "background_removal_filter \<Rightarrow> bgr Mat \<Rightarrow> rat list" where
  "preprocess tf resizedImageRGB =
     hwc_to_chw (map (normalise (modelSelection tf)) (elems resizedImageRGB))"

text \<open>Lines 381 to 385: \<open>tf->session->Run\<close>, through the session pointer as it is.\<close>

definition runInference ::
  "lib \<Rightarrow> background_removal_filter \<Rightarrow> error + background_removal_filter" where
  "runInference l tf =
     (case session tf of
        None \<Rightarrow> Inl NullSession
      | Some s \<Rightarrow>
          (case ort_run l s (inputTensorValues tf) of
             None \<Rightarrow> Inl OrtError
           | Some out \<Rightarrow> Inr (tf\<lparr>outputTensorValues := out\<rparr>)))"

text \<open>Lines 387 to 398: the output buffer seen as a matrix, and the comparison with
  the threshold in the direction of the selected model.\<close>

definition outputImage :: "background_removal_filter \<Rightarrow> error + rat Mat" where
  "outputImage tf =
     (case vector_at (outputDims tf) 2 of
        Inl e \<Rightarrow> Inl e
      | Inr d2 \<Rightarrow>
          (case vector_at (outputDims tf) 3 of
             Inl e \<Rightarrow> Inl e
           | Inr d3 \<Rightarrow>
               Inr \<lparr>rows = cast_int d2, cols = cast_int d3,
                     elems = take (nat (cast_int d2 * cast_int d3)) (outputTensorValues tf)\<rparr>))"

definition thresholdMask :: "background_removal_filter \<Rightarrow> rat Mat \<Rightarrow> uchar Mat" where
  "thresholdMask tf out =
     (if modelSelection tf = MODEL_SINET
      then mat_compare (\<lambda>v. dy_val (threshold tf) < v) out
      else mat_compare (\<lambda>v. v < dy_val (threshold tf)) out)"

text \<open>Lines 400 to 413: contour processing.\<close>

definition contourSizeThreshold :: "background_removal_filter \<Rightarrow> uchar Mat \<Rightarrow> int" where
  "contourSizeThreshold tf msk =
     float_to_int64 (f32_mul (f32_of_int (mat_total msk)) (contourFilter tf))"

definition filterContours ::
  "background_removal_filter \<Rightarrow> uchar Mat \<Rightarrow> contour list \<Rightarrow> contour list" where
  "filterContours tf msk contours =
     filter (\<lambda>c. of_int (contourSizeThreshold tf msk) < contourArea c) contours"

definition setTo_zero :: "uchar Mat \<Rightarrow> uchar Mat" where
  "setTo_zero m = m\<lparr>elems := map (\<lambda>_. 0) (elems m)\<rparr>"

definition contourStep :: "lib \<Rightarrow> background_removal_filter \<Rightarrow> uchar Mat \<Rightarrow> uchar Mat" where
  "contourStep l tf msk =
     (if 0 < dy_val (contourFilter tf) \<and> dy_val (contourFilter tf) < 1
      then cv_drawContours l (setTo_zero msk)
             (filterContours tf msk (cv_findContours l msk))
      else msk)"

text \<open>Lines 418 to 423: smoothing with a box filter.\<close>

definition k_size :: "background_removal_filter \<Rightarrow> int" where
  "k_size tf = float_to_int32 (f32_mul (f32_of_int 100) (smoothContour tf))"

definition smoothStep ::
  "lib \<Rightarrow> background_removal_filter \<Rightarrow> uchar Mat \<Rightarrow> error + uchar Mat" where
  "smoothStep l tf msk =
     (if 0 < dy_val (smoothContour tf)
      then (case cv_boxFilter l msk (k_size tf) of
              None \<Rightarrow> Inl CvError
            | Some blurred \<Rightarrow> Inr (mat_compare (\<lambda>v. 128 < v) blurred))
      else Inr msk)"

text \<open>Lines 387 to 423 together: from the output buffer to the mask at frame size.\<close>

definition postprocess ::
  "lib \<Rightarrow> background_removal_filter \<Rightarrow> cv_Size \<Rightarrow> error + uchar Mat" where
  "postprocess l tf frameSize =
     (case outputImage tf of
        Inl e \<Rightarrow> Inl e
      | Inr out \<Rightarrow>
          (case cv_resize (interp_mask l) (contourStep l tf (thresholdMask tf out)) frameSize of
             Inl e \<Rightarrow> Inl e
           | Inr backgroundMask \<Rightarrow> smoothStep l tf backgroundMask))"

text \<open>Line 425 after them: the background colour is stored where the mask is set.\<close>

definition composite ::
  "lib \<Rightarrow> background_removal_filter \<Rightarrow> bgr Mat \<Rightarrow> error + bgr Mat" where
  "composite l tf imageBGR =
     (case postprocess l tf (mat_size imageBGR) of
        Inl e \<Rightarrow> Inl e
      | Inr backgroundMask \<Rightarrow> setTo_masked imageBGR (backgroundColor tf) backgroundMask)"

definition filter_render ::
  "lib \<Rightarrow> background_removal_filter \<Rightarrow> obs_source_frame
     \<Rightarrow> error + (obs_source_frame \<times> background_removal_filter)" where
  "filter_render l tf frame =
     (case convertFrameToBGR l frame tf of
        (imageBGR, tf1) \<Rightarrow>
          (case resizeToNetwork l tf1 imageBGR of
             Inl e \<Rightarrow> Inl e
           | Inr resizedImageRGB \<Rightarrow>
               (case runInference l (tf1\<lparr>inputTensorValues := preprocess tf1 resizedImageRGB\<rparr>) of
                  Inl e \<Rightarrow> Inl e
                | Inr tf2 \<Rightarrow>
                    (case composite l tf2 imageBGR of
                       Inl e \<Rightarrow> Inl e
                     | Inr masked \<Rightarrow> Inr (convertBGRToFrame l masked frame tf2)))))"

section \<open>A small instance of the libraries\<close>

text \<open>
  The theorems below hold for every \<open>lib\<close>. To run the definitions on concrete
  inputs, \<open>sample_lib\<close> fixes one: both model files resolve and load with a 2 x 2
  input and output, inference returns an output of zeros, every converter can be
  created, memory never written holds zeros, a converter fills the image
  with one colour and writes the image back byte by byte, no contour is found, and the
  box filter rejects a kernel that is not positive. \<open>sample_interp\<close> copies a source of
  the size asked for, as \<open>cv::resize\<close> does, and repeats the first pixel otherwise.
\<close>

definition sample_interp :: "'a Mat \<Rightarrow> int \<Rightarrow> int \<Rightarrow> 'a list" where
  "sample_interp src r c =
     (if rows src = r \<and> cols src = c then elems src
      else replicate (nat (r * c)) (hd (elems src)))"

definition sample_lib :: lib where
  "sample_lib = \<lparr>
     obs_module_file = (\<lambda>name. if name = MODEL_SINET \<or> name = MODEL_MODNET
                                then Some (''/data/'' @ name) else None),
     ort_new_session = (\<lambda>path gpu. Some ([1, 3, 2, 2], [1, 1, 2, 2])),
     ort_run = (\<lambda>s input. Some [0, 0, 0, 0]),
     video_scaler_create = (\<lambda>dst src. True),
     uninitialized_pixels = (\<lambda>r c. replicate (nat (r * c)) (0, 0, 0)),
     video_scaler_to = (\<lambda>sc frame.
        replicate (si_width (vs_dst sc) * si_height (vs_dst sc)) (10, 20, 30)),
     video_scaler_from = (\<lambda>sc img frame. concat (map (\<lambda>(b, g, r). [b, g, r]) (elems img))),
     interp_rgb = sample_interp,
     interp_mask = sample_interp,
     cv_findContours = (\<lambda>m. []),
     cv_drawContours = (\<lambda>m cs. m),
     cv_boxFilter = (\<lambda>m k. if k \<le> 0 then None else Some m)\<rparr>"

definition sample_settings :: obs_data where
  "sample_settings = \<lparr>set_threshold = (1, - 1), set_replaceColor = 0x0000ff,
     set_contour_filter = (0, 0), set_smooth_contour = (0, 0), set_useGPU = False,
     set_model_select = MODEL_SINET\<rparr>"

definition sample_frame :: obs_source_frame where
  "sample_frame = \<lparr>width = 2, height = 2, format = VIDEO_FORMAT_BGR3,
     data = [10, 20, 30, 10, 20, 30, 10, 20, 30, 10, 20, 30]\<rparr>"

text \<open>The filter after \<open>filter_create\<close> with a setting and one rendered frame.\<close>

definition running_filter :: "obs_data \<Rightarrow> background_removal_filter" where
  "running_filter settings =
     (case filter_create sample_lib settings of
        Inl e \<Rightarrow> zeroed_filter
      | Inr tf \<Rightarrow>
          (case filter_render sample_lib tf sample_frame of
             Inl e \<Rightarrow> tf
           | Inr (frame, tf1) \<Rightarrow> tf1))"

text \<open>The filter right after \<open>filter_create\<close> with a setting.\<close>

definition created_filter :: "obs_data \<Rightarrow> background_removal_filter" where
  "created_filter settings =
     (case filter_create sample_lib settings of Inl e \<Rightarrow> zeroed_filter | Inr tf \<Rightarrow> tf)"

text \<open>The running filter after a settings update and the next rendered frame.\<close>

definition updated_filter :: "obs_data \<Rightarrow> obs_data \<Rightarrow> background_removal_filter" where
  "updated_filter settings settings' =
     (case filter_update sample_lib settings' (running_filter settings) of
        Inl e \<Rightarrow> zeroed_filter
      | Inr tf \<Rightarrow>
          (case filter_render sample_lib tf sample_frame of
             Inl e \<Rightarrow> tf
           | Inr (frame, tf1) \<Rightarrow> tf1))"

definition wide_frame :: obs_source_frame where
  "wide_frame = \<lparr>width = 4, height = 2, format = VIDEO_FORMAT_I420,
     data = [16, 16, 16, 16, 16, 16, 16, 16, 128, 128, 128, 128]\<rparr>"

text \<open>A mask of 4 rows and 7 columns holding one region: four pixels in row 1 above
  three pixels in row 2. Its outer contour is \<open>sample_contour\<close>.\<close>

definition sample_mask :: "uchar Mat" where
  "sample_mask = \<lparr>rows = 4, cols = 7, elems =
     [0, 0, 0, 0, 0, 0, 0,
      0, 255, 255, 255, 255, 0, 0,
      0, 255, 255, 255, 0, 0, 0,
      0, 0, 0, 0, 0, 0, 0]\<rparr>"

definition sample_contour :: contour where
  "sample_contour = [(1, 1), (1, 2), (3, 2), (4, 1)]"

text \<open>The ids of the instances a filter holds are below its counter.\<close>

definition ids_below :: "background_removal_filter \<Rightarrow> bool" where
  "ids_below tf =
     ((case session tf of None \<Rightarrow> True | Some s \<Rightarrow> ses_id s < fresh tf)
      \<and> (case scalerToBGR tf of None \<Rightarrow> True | Some sc \<Rightarrow> vs_id sc < fresh tf)
      \<and> (case scalerFromBGR tf of None \<Rightarrow> True | Some sc \<Rightarrow> vs_id sc < fresh tf))"

text \<open>
  \<open>created_for l frame n tf\<close>: the converters of \<open>tf\<close> are what \<open>initializeScalers\<close>
  leaves for the frame when the instances up to \<open>n\<close> exist already. Each converter is
  present exactly if its creation succeeds, and then it has the width, height and format
  of the frame on one side, BGR of the same size on the other, and a number from \<open>n\<close>
  on.
\<close>

definition created_for ::
  "lib \<Rightarrow> obs_source_frame \<Rightarrow> nat \<Rightarrow> background_removal_filter \<Rightarrow> bool" where
  "created_for l frame n tf =
     (let bgr_info = \<lparr>si_format = VIDEO_FORMAT_BGR3, si_width = width frame,
                       si_height = height frame\<rparr>;
          frame_info = \<lparr>si_format = format frame, si_width = width frame,
                         si_height = height frame\<rparr>
      in (case scalerToBGR tf of
            None \<Rightarrow> \<not> video_scaler_create l bgr_info frame_info
          | Some sc \<Rightarrow> video_scaler_create l bgr_info frame_info
              \<and> vs_dst sc = bgr_info \<and> vs_src sc = frame_info \<and> n \<le> vs_id sc)
         \<and> (case scalerFromBGR tf of
               None \<Rightarrow> \<not> video_scaler_create l frame_info bgr_info
             | Some sc \<Rightarrow> video_scaler_create l frame_info bgr_info
                 \<and> vs_dst sc = frame_info \<and> vs_src sc = bgr_info \<and> n \<le> vs_id sc))"


definition constant_mask :: "int \<Rightarrow> int \<Rightarrow> uchar \<Rightarrow> uchar Mat" where
  "constant_mask r c v = \<lparr>rows = r, cols = c, elems = replicate (nat (r * c)) v\<rparr>"


text \<open>
  \<open>border_lib\<close> is \<open>sample_lib\<close> except that it finds, in the 2 x 2 mask whose pixels all
  hold 255, the one contour through its four pixels, as \<open>cv::findContours\<close> does.
\<close>

definition border_lib :: lib where
  "border_lib = sample_lib\<lparr>cv_findContours :=
     (\<lambda>m. if m = constant_mask 2 2 255 then [[(0, 0), (0, 1), (1, 1), (1, 0)]] else [])\<rparr>"

text \<open>
  The measure that the specification names for a region, its pixel area: the number of
  mask pixels of the region. For a mask that holds one region it is the number of the
  pixels that are not zero.
\<close>

definition pixel_area_of_single_region :: "uchar Mat \<Rightarrow> nat" where
  "pixel_area_of_single_region m = length (filter (\<lambda>v. v \<noteq> 0) (elems m))"

section \<open>Facts about the single-precision arithmetic\<close>

lemma dy_val_powi: "dy_val (m, e) = of_int m * 2 powi e"
  by (simp add: dy_val_def power_int_def field_simps)

lemma rne_upper: "(of_int (rne m s) :: rat) \<le> of_int m / 2 ^ s + 1 / 2"
proof -
  define q where "q = m div 2 ^ s"
  define r where "r = m mod 2 ^ s"
  have m: "m = q * 2 ^ s + r" unfolding q_def r_def by (rule div_mult_mod_eq [symmetric])
  have r0: "0 \<le> r" and r1: "r < 2 ^ s" by (simp_all add: r_def)
  have "(of_int m :: rat) = of_int q * 2 ^ s + of_int r"
    by (subst m) simp
  then have mq: "(of_int m :: rat) / 2 ^ s = of_int q + of_int r / 2 ^ s"
    by (simp add: field_simps)
  have c1: "2 * r < 2 ^ s \<Longrightarrow> rne m s = q"
    by (simp add: rne_def q_def r_def Let_def)
  have c2: "\<not> 2 * r < 2 ^ s \<Longrightarrow> rne m s \<le> q + 1"
    by (simp add: rne_def q_def r_def Let_def)
  show ?thesis
  proof (cases "2 * r < 2 ^ s")
    case True
    have "(0::rat) \<le> of_int r / 2 ^ s" using r0 by simp
    then show ?thesis using c1 [OF True] mq by simp
  next
    case False
    then have "(2::int) ^ s \<le> 2 * r" by simp
    then have "(of_int ((2::int) ^ s) :: rat) \<le> of_int (2 * r)" by (simp only: of_int_le_iff)
    then have "(2::rat) ^ s \<le> 2 * of_int r" by simp
    then have "(1::rat) / 2 \<le> of_int r / 2 ^ s" by (simp add: field_simps)
    moreover have "(of_int (rne m s) :: rat) \<le> of_int q + 1"
      using c2 [OF False] by (metis of_int_1 of_int_add of_int_le_iff)
    ultimately have "(of_int (rne m s) :: rat) \<le> of_int q + of_int r / 2 ^ s + 1 / 2"
      by linarith
    then show ?thesis by (simp only: mq)
  qed
qed

lemma rne_nonneg: "0 \<le> m \<Longrightarrow> 0 \<le> rne m s"
  by (auto simp: rne_def Let_def pos_imp_zdiv_nonneg_iff)

lemma trunc_to_int_zero:
  assumes "0 \<le> m" "dy_val (m, e) < 1"
  shows "trunc_to_int (m, e) = 0"
proof (cases "0 \<le> e")
  case True
  have "m = 0"
  proof (rule ccontr)
    assume "m \<noteq> 0"
    then have "1 \<le> m" using assms(1) by simp
    then have a: "(1::rat) \<le> of_int m" by simp
    have b: "(1::rat) \<le> 2 ^ nat e" by simp
    have "(1::rat) * 1 \<le> of_int m * 2 ^ nat e"
      using a b by (intro mult_mono) simp_all
    then show False using assms(2) True by (simp add: dy_val_def)
  qed
  then show ?thesis by (simp add: trunc_to_int_def)
next
  case False
  then have "(of_int m :: rat) / 2 ^ nat (- e) < 1" using assms(2) by (simp add: dy_val_def)
  then have "(of_int m :: rat) < 2 ^ nat (- e)" by (simp add: field_simps)
  then have "(of_int m :: rat) < of_int (2 ^ nat (- e))" by simp
  then have "m < 2 ^ nat (- e)" by (simp only: of_int_less_iff)
  then have "\<bar>m\<bar> div 2 ^ nat (- e) = 0" using assms(1) by simp
  then show ?thesis using False by (simp add: trunc_to_int_def)
qed

lemma f32_of_int_100: "f32_of_int 100 = (100, 0)"
  by code_simp

lemma dy_val_scale: "dy_val (k * m, e) = of_int k * dy_val (m, e)"
  by (simp add: dy_val_powi)

lemma trunc_to_int_floor:
  assumes "0 \<le> m"
  shows "trunc_to_int (m, e) = \<lfloor>dy_val (m, e)\<rfloor>"
proof (cases "0 \<le> e")
  case True
  have "dy_val (m, e) = of_int (m * 2 ^ nat e)" using True by (simp add: dy_val_def)
  then have "\<lfloor>dy_val (m, e)\<rfloor> = m * 2 ^ nat e" by (simp only: floor_of_int)
  then show ?thesis using True by (simp add: trunc_to_int_def)
next
  case False
  have "dy_val (m, e) = of_int m / of_int (2 ^ nat (- e))"
    using False by (simp add: dy_val_def)
  then have "\<lfloor>dy_val (m, e)\<rfloor> = m div 2 ^ nat (- e)"
    by (simp only: floor_divide_of_int_eq)
  moreover have "sgn m * (\<bar>m\<bar> div 2 ^ nat (- e)) = m div 2 ^ nat (- e)"
    using assms by (cases "m = 0") simp_all
  ultimately show ?thesis using False by (simp add: trunc_to_int_def)
qed

lemma f32_round_nonneg: "0 \<le> m \<Longrightarrow> 0 \<le> fst (f32_round (m, e))"
  by (simp add: f32_round_def Let_def rne_nonneg)


section \<open>Mask postprocessing with both refinements disabled\<close>

text \<open>
  Claim C7. With \<open>contourFilter = 0\<close> and \<open>smoothContour = 0\<close> the mask postprocessing
  is the thresholded mask resized to the frame size and nothing else, for every output
  buffer, model selection and frame size: the contour branch and the smoothing branch
  are both skipped and leave the mask as it is.
\<close>

theorem postprocess_disabled:
  assumes "dy_val (contourFilter tf) = 0" and "dy_val (smoothContour tf) = 0"
  shows "postprocess l tf frameSize =
           (case outputImage tf of
              Inl e \<Rightarrow> Inl e
            | Inr out \<Rightarrow> cv_resize (interp_mask l) (thresholdMask tf out) frameSize)"
  using assms
  by (simp add: postprocess_def contourStep_def smoothStep_def split: sum.splits)

theorem postprocess_disabled_witness:
  "dy_val (contourFilter (running_filter sample_settings)) = 0
   \<and> dy_val (smoothContour (running_filter sample_settings)) = 0
   \<and> postprocess sample_lib (running_filter sample_settings) \<lparr>sz_width = 2, sz_height = 2\<rparr>
       = Inr \<lparr>rows = 2, cols = 2, elems = [0, 0, 0, 0]\<rparr>"
proof -
  have a: "dy_val (contourFilter (running_filter sample_settings)) = 0"
    by code_simp
  have b: "dy_val (smoothContour (running_filter sample_settings)) = 0"
    by code_simp
  have c: "(case outputImage (running_filter sample_settings) of
              Inl e \<Rightarrow> Inl e
            | Inr out \<Rightarrow> cv_resize (interp_mask sample_lib)
                 (thresholdMask (running_filter sample_settings) out)
                 \<lparr>sz_width = 2, sz_height = 2\<rparr>)
           = Inr \<lparr>rows = 2, cols = 2, elems = [0, 0, 0, 0]\<rparr>"
    by code_simp
  show ?thesis
    using postprocess_disabled [OF a b, of sample_lib "\<lparr>sz_width = 2, sz_height = 2\<rparr>"] a b c
    by simp
qed

section \<open>Smoothing\<close>

lemma mat_compare_binary: "v \<in> set (elems (mat_compare P m)) \<Longrightarrow> v = 0 \<or> v = 255"
  by (auto simp: mat_compare_def)

lemma float_to_int32_range: "- (2 ^ 31) \<le> float_to_int32 d \<and> float_to_int32 d < 2 ^ 31"
  by (simp add: float_to_int32_def Let_def)

text \<open>
  Claim C8. When \<open>smoothContour > 0\<close>, the mask postprocessing passes the mask that the
  resize has brought to the frame size to the box filter, with the kernel size
  \<open>(int)(100 * smoothContour)\<close>, the integer part of the single-precision product as an
  \<open>int\<close> of 32 bits, and compares what the box filter returns with the fixed cutoff 128:
  the postprocessed mask, where the box filter returns, holds 0 or 255 in every pixel.
\<close>

theorem postprocess_smooths_frame_scale_mask:
  assumes "0 < dy_val (smoothContour tf)"
    and "outputImage tf = Inr out"
    and "cv_resize (interp_mask l) (contourStep l tf (thresholdMask tf out)) frameSize
           = Inr resized"
  shows "rows resized = sz_height frameSize \<and> cols resized = sz_width frameSize
         \<and> k_size tf = float_to_int32 (f32_mul (f32_of_int 100) (smoothContour tf))
         \<and> - (2 ^ 31) \<le> k_size tf \<and> k_size tf < 2 ^ 31
         \<and> k_size tf =
             (if \<lfloor>dy_val (f32_mul (f32_of_int 100) (smoothContour tf))\<rfloor> < 2 ^ 31
              then \<lfloor>dy_val (f32_mul (f32_of_int 100) (smoothContour tf))\<rfloor> else - (2 ^ 31))
         \<and> postprocess l tf frameSize =
             (case cv_boxFilter l resized (k_size tf) of
                None \<Rightarrow> Inl CvError
              | Some blurred \<Rightarrow> Inr (mat_compare (\<lambda>v. 128 < v) blurred))
         \<and> (\<forall>m'. postprocess l tf frameSize = Inr m' \<longrightarrow> set (elems m') \<subseteq> {0, 255})"
proof -
  have sz: "rows resized = sz_height frameSize \<and> cols resized = sz_width frameSize"
    using assms(3) by (auto simp: cv_resize_def split: if_splits)
  have pp: "postprocess l tf frameSize =
             (case cv_boxFilter l resized (k_size tf) of
                None \<Rightarrow> Inl CvError
              | Some blurred \<Rightarrow> Inr (mat_compare (\<lambda>v. 128 < v) blurred))"
    using assms by (simp add: postprocess_def smoothStep_def)
  have bin: "\<forall>m'. postprocess l tf frameSize = Inr m' \<longrightarrow> set (elems m') \<subseteq> {0, 255}"
    unfolding pp by (auto split: option.splits dest: mat_compare_binary)
  obtain sm se where sc: "smoothContour tf = (sm, se)" by (cases "smoothContour tf")
  have p0: "0 < of_int sm * (2::rat) powi se" using assms(1) sc by (simp add: dy_val_powi)
  have p2: "0 < (2::rat) powi se" by simp
  have "0 < (of_int sm :: rat)" using zero_less_mult_pos2 [OF p0 p2] .
  then have smpos: "0 \<le> 100 * sm" by simp
  obtain r e' where fr: "f32_round (100 * sm, se) = (r, e')"
    by (cases "f32_round (100 * sm, se)")
  have pr: "f32_mul (f32_of_int 100) (smoothContour tf) = (r, e')"
    by (simp add: f32_mul_def f32_of_int_100 sc fr)
  have r0: "0 \<le> r" using f32_round_nonneg [OF smpos, of se] fr by simp
  have fl: "trunc_to_int (r, e') = \<lfloor>dy_val (r, e')\<rfloor>" using r0 by (rule trunc_to_int_floor)
  have "0 \<le> dy_val (r, e')" using r0 by (simp add: dy_val_powi)
  then have f0: "0 \<le> trunc_to_int (r, e')" unfolding fl by simp
  have kf: "k_size tf =
             (if \<lfloor>dy_val (f32_mul (f32_of_int 100) (smoothContour tf))\<rfloor> < 2 ^ 31
              then \<lfloor>dy_val (f32_mul (f32_of_int 100) (smoothContour tf))\<rfloor> else - (2 ^ 31))"
    using f0 fl by (simp add: k_size_def float_to_int32_def pr Let_def)
  have rg: "- (2 ^ 31) \<le> k_size tf \<and> k_size tf < 2 ^ 31"
    using float_to_int32_range [of "f32_mul (f32_of_int 100) (smoothContour tf)"]
    by (simp add: k_size_def)
  have kd: "k_size tf = float_to_int32 (f32_mul (f32_of_int 100) (smoothContour tf))"
    by (simp add: k_size_def)
  show ?thesis
    using sz pp bin rg kd kf by (intro conjI) simp_all
qed

theorem postprocess_smooths_frame_scale_mask_witness:
  "0 < dy_val (smoothContour ((running_filter sample_settings)
        \<lparr>smoothContour := (1, - 1), outputTensorValues := [0, 1, 0, 1]\<rparr>))
   \<and> k_size ((running_filter sample_settings)
        \<lparr>smoothContour := (1, - 1), outputTensorValues := [0, 1, 0, 1]\<rparr>) = 50
   \<and> postprocess sample_lib ((running_filter sample_settings)
        \<lparr>smoothContour := (1, - 1), outputTensorValues := [0, 1, 0, 1]\<rparr>)
        \<lparr>sz_width = 2, sz_height = 2\<rparr>
       = Inr \<lparr>rows = 2, cols = 2, elems = [0, 255, 0, 255]\<rparr>"
proof -
  let ?tf = "(running_filter sample_settings)
        \<lparr>smoothContour := (1, - 1), outputTensorValues := [0, 1, 0, 1]\<rparr>"
  let ?out = "\<lparr>rows = 2, cols = 2, elems = [0, 1, 0, 1]\<rparr> :: rat Mat"
  let ?resized = "\<lparr>rows = 2, cols = 2, elems = [0, 255, 0, 255]\<rparr> :: uchar Mat"
  have a: "0 < dy_val (smoothContour ?tf)" by code_simp
  have b: "outputImage ?tf = Inr ?out" by code_simp
  have c: "cv_resize (interp_mask sample_lib) (contourStep sample_lib ?tf (thresholdMask ?tf ?out))
             \<lparr>sz_width = 2, sz_height = 2\<rparr> = Inr ?resized"
    by code_simp
  have k: "k_size ?tf = 50" by code_simp
  have d: "cv_boxFilter sample_lib ?resized 50 = Some ?resized" by code_simp
  have e: "mat_compare (\<lambda>v. 128 < v) ?resized = ?resized" by code_simp
  show ?thesis
    using postprocess_smooths_frame_scale_mask [OF a b c] a k d e by simp
qed

section \<open>Resizing to the network input\<close>

text \<open>
  Claim C5. The source builds the target size as \<open>cv::Size(inputDims[2], inputDims[3])\<close>,
  and the first argument of \<open>cv::Size\<close> is the width: the resized image has
  \<open>inputDims[2]\<close> columns and \<open>inputDims[3]\<close> rows, the transpose of the declared
  height and width. For a model of input shape \<open>(1, 3, 2, 3)\<close>, height 2 and width 3,
  the resized image has 3 rows and 2 columns.
\<close>

theorem resizeToNetwork_shape:
  assumes "resizeToNetwork l tf imageBGR = Inr resized"
  shows "vector_at (inputDims tf) 2 = Inr (inputDims tf ! 2)
         \<and> vector_at (inputDims tf) 3 = Inr (inputDims tf ! 3)
         \<and> cols resized = cast_int (inputDims tf ! 2)
         \<and> rows resized = cast_int (inputDims tf ! 3)"
  using assms
  by (auto simp: resizeToNetwork_def vector_at_def cv_resize_def
           split: sum.splits if_splits)

theorem resizeToNetwork_shape_witness:
  "resizeToNetwork sample_lib (zeroed_filter\<lparr>inputDims := [1, 3, 2, 3]\<rparr>)
       \<lparr>rows = 1, cols = 1, elems = [(10, 20, 30)]\<rparr>
     = Inr \<lparr>rows = 3, cols = 2, elems = replicate 6 (30, 20, 10)\<rparr>
   \<and> rows \<lparr>rows = 3, cols = 2, elems = replicate 6 (30 :: nat, 20 :: nat, 10 :: nat)\<rparr>
       = cast_int ([1, 3, 2, 3] ! 3)"
proof -
  let ?tf = "zeroed_filter\<lparr>inputDims := [1, 3, 2, 3]\<rparr>"
  have a: "resizeToNetwork sample_lib ?tf \<lparr>rows = 1, cols = 1, elems = [(10, 20, 30)]\<rparr>
             = Inr \<lparr>rows = 3, cols = 2, elems = replicate 6 (30, 20, 10)\<rparr>"
    by code_simp
  have b: "inputDims ?tf = [1, 3, 2, 3]" by (simp add: zeroed_filter_def)
  show ?thesis using resizeToNetwork_shape [OF a] a b by simp
qed

section \<open>Rendering after a failed load\<close>

text \<open>A load that fails leaves the whole filter as it was: the session stays absent
  if it was absent, and a session loaded earlier stays in place.\<close>

lemma createOrtSession_load_failure:
  assumes "obs_module_file l (modelSelection tf) = None
           \<or> (\<exists>p. obs_module_file l (modelSelection tf) = Some p
                    \<and> ort_new_session l p (useGPU tf) = None)"
  shows "createOrtSession l tf = Inr tf"
  using assms by (auto simp: createOrtSession_def)

lemma convertFrameToBGR_session:
  "session (snd (convertFrameToBGR l frame tf)) = session tf"
  by (simp add: convertFrameToBGR_def initializeScalers_def destroyScalers_def Let_def)

lemma filter_render_absent_session:
  assumes "session tf = None"
  shows "\<exists>e. filter_render l tf frame = Inl e"
proof -
  obtain img tf1 where p: "convertFrameToBGR l frame tf = (img, tf1)"
    by (cases "convertFrameToBGR l frame tf")
  have s: "session tf1 = None"
    using convertFrameToBGR_session [of l frame tf] p assms by simp
  show ?thesis
    using p s
    by (simp add: filter_render_def runInference_def split: sum.splits)
qed



lemma filter_update_load_failure:
  assumes "obs_module_file l (set_model_select settings) = None
           \<or> (\<exists>p. obs_module_file l (set_model_select settings) = Some p
                    \<and> ort_new_session l p (set_useGPU settings) = None)"
  shows "\<exists>tf'. filter_update l settings tf = Inr tf' \<and> session tf' = session tf"
  using assms
  by (auto simp: filter_update_def createOrtSession_def destroyScalers_def Let_def)

text \<open>
  Claim C1. A settings update whose load fails (the model file does not resolve, or the
  session constructor throws) returns with the session as it was, absent if it was
  absent. The render call has no test of the session pointer: with an absent session
  it never returns a frame. It ends in an error, at the read of \<open>inputDims\<close> or at the
  call through the absent session, instead of passing the frame through.
\<close>

theorem failed_load_then_render_fails:
  assumes "obs_module_file l (set_model_select settings) = None
           \<or> (\<exists>p. obs_module_file l (set_model_select settings) = Some p
                    \<and> ort_new_session l p (set_useGPU settings) = None)"
  shows "\<exists>tf'. filter_update l settings tf = Inr tf' \<and> session tf' = session tf
           \<and> (session tf = None \<longrightarrow> (\<forall>frame. \<exists>e. filter_render l tf' frame = Inl e))"
proof -
  obtain tf' where a: "filter_update l settings tf = Inr tf'" "session tf' = session tf"
    using filter_update_load_failure [OF assms] by blast
  have r: "session tf = None \<longrightarrow> (\<forall>frame. \<exists>e. filter_render l tf' frame = Inl e)"
    using a(2) filter_render_absent_session [of tf' l] by simp
  show ?thesis
  proof (rule exI [of _ tf'], intro conjI)
    show "filter_update l settings tf = Inr tf'" by (rule a(1))
    show "session tf' = session tf" by (rule a(2))
    show "session tf = None \<longrightarrow> (\<forall>frame. \<exists>e. filter_render l tf' frame = Inl e)"
      by (rule r)
  qed
qed

theorem failed_load_then_render_fails_witness:
  "obs_module_file sample_lib (set_model_select (sample_settings\<lparr>set_model_select := ''missing.onnx''\<rparr>))
     = None
   \<and> session zeroed_filter = None
   \<and> map_sum id session
        (filter_create sample_lib (sample_settings\<lparr>set_model_select := ''missing.onnx''\<rparr>))
       = Inr None
   \<and> filter_render sample_lib
        (created_filter (sample_settings\<lparr>set_model_select := ''missing.onnx''\<rparr>)) sample_frame
       = Inl OutOfRange
   \<and> filter_render sample_lib
        ((created_filter (sample_settings\<lparr>set_model_select := ''missing.onnx''\<rparr>))
           \<lparr>inputDims := [1, 3, 2, 2]\<rparr>) sample_frame
       = Inl NullSession"
proof -
  let ?s = "sample_settings\<lparr>set_model_select := ''missing.onnx''\<rparr>"
  have a: "obs_module_file sample_lib (set_model_select ?s) = None" by code_simp
  have b: "session zeroed_filter = None" by code_simp
  have c: "map_sum id session (filter_create sample_lib ?s) = Inr None" by code_simp
  have d: "filter_render sample_lib (created_filter ?s) sample_frame = Inl OutOfRange"
    by code_simp
  have e: "filter_render sample_lib ((created_filter ?s)\<lparr>inputDims := [1, 3, 2, 2]\<rparr>)
             sample_frame = Inl NullSession"
    by code_simp
  show ?thesis
    using failed_load_then_render_fails [OF disjI1 [OF a], of zeroed_filter] a b c d e
    by simp
qed

section \<open>Settings updates\<close>

text \<open>
  Claim C3, as stated, fails: an update that changes only the threshold leaves no
  converter in place and loads the model again. The filter that rendered one frame holds
  the converters 1 and 2 and the session 0; after the update and the next frame it holds
  the converters 4 and 5 and the session 3.
\<close>

theorem threshold_update_rebuilds:
  "sample_settings\<lparr>set_threshold := (1, - 2)\<rparr>
     = \<lparr>set_threshold = (1, - 2), set_replaceColor = set_replaceColor sample_settings,
        set_contour_filter = set_contour_filter sample_settings,
        set_smooth_contour = set_smooth_contour sample_settings,
        set_useGPU = set_useGPU sample_settings,
        set_model_select = set_model_select sample_settings\<rparr>
   \<and> map_option vs_id (scalerToBGR (running_filter sample_settings)) = Some 1
   \<and> map_option vs_id (scalerFromBGR (running_filter sample_settings)) = Some 2
   \<and> map_option ses_id (session (running_filter sample_settings)) = Some 0
   \<and> map_sum id scalerToBGR
        (filter_update sample_lib (sample_settings\<lparr>set_threshold := (1, - 2)\<rparr>)
           (running_filter sample_settings)) = Inr None
   \<and> map_option vs_id (scalerToBGR
        (updated_filter sample_settings (sample_settings\<lparr>set_threshold := (1, - 2)\<rparr>))) = Some 4
   \<and> map_option vs_id (scalerFromBGR
        (updated_filter sample_settings (sample_settings\<lparr>set_threshold := (1, - 2)\<rparr>))) = Some 5
   \<and> map_option ses_id (session
        (updated_filter sample_settings (sample_settings\<lparr>set_threshold := (1, - 2)\<rparr>))) = Some 3"
  by code_simp

lemma createOrtSession_cases:
  assumes "createOrtSession l tf = Inr tf'"
  shows "scalerToBGR tf' = scalerToBGR tf \<and> scalerFromBGR tf' = scalerFromBGR tf
         \<and> threshold tf' = threshold tf
         \<and> (case obs_module_file l (modelSelection tf) of
               None \<Rightarrow> session tf' = session tf
             | Some path \<Rightarrow>
                 (case ort_new_session l path (useGPU tf) of
                    None \<Rightarrow> session tf' = session tf
                  | Some (inShape, outShape) \<Rightarrow>
                      session tf' = Some \<lparr>ses_id = fresh tf, ses_path = path,
                        ses_inputShape = inShape, ses_outputShape = outShape\<rparr>))"
  using assms
  by (auto simp: createOrtSession_def split: option.splits sum.splits prod.splits)

text \<open>
  Claim C3, amended. Every settings update, also one that changes only the threshold,
  destroys both converters (they are absent after the update, for the next render call
  to build again) and attempts to load the model again: where the file resolves and the
  load succeeds the session is a newly created instance, different from the one before,
  and where it fails the session of before stays. The threshold holds the new value.
\<close>

theorem filter_update_always_rebuilds:
  assumes "filter_update l settings tf = Inr tf'" and "ids_below tf"
  shows "scalerToBGR tf' = None \<and> scalerFromBGR tf' = None
         \<and> threshold tf' = f32_round (set_threshold settings)
         \<and> (case obs_module_file l (set_model_select settings) of
               None \<Rightarrow> session tf' = session tf
             | Some path \<Rightarrow>
                 (case ort_new_session l path (set_useGPU settings) of
                    None \<Rightarrow> session tf' = session tf
                  | Some (inShape, outShape) \<Rightarrow>
                      session tf' = Some \<lparr>ses_id = fresh tf, ses_path = path,
                        ses_inputShape = inShape, ses_outputShape = outShape\<rparr>
                      \<and> session tf' \<noteq> session tf))"
proof -
  define tf1 where "tf1 = destroyScalers (tf\<lparr>threshold := f32_round (set_threshold settings),
       backgroundColor := (unat (set_replaceColor settings AND 0xff),
                           unat (drop_bit 8 (set_replaceColor settings) AND 0xff),
                           unat (drop_bit 16 (set_replaceColor settings) AND 0xff)),
       contourFilter := f32_round (set_contour_filter settings),
       smoothContour := f32_round (set_smooth_contour settings),
       useGPU := set_useGPU settings,
       modelSelection := set_model_select settings\<rparr>)"
  have c: "createOrtSession l tf1 = Inr tf'"
    using assms(1) by (simp add: filter_update_def tf1_def Let_def)
  have f: "scalerToBGR tf1 = None" "scalerFromBGR tf1 = None"
    "threshold tf1 = f32_round (set_threshold settings)"
    "modelSelection tf1 = set_model_select settings" "useGPU tf1 = set_useGPU settings"
    "session tf1 = session tf" "fresh tf1 = fresh tf"
    by (simp_all add: tf1_def destroyScalers_def)
  have n: "session tf \<noteq> Some \<lparr>ses_id = fresh tf, ses_path = p, ses_inputShape = i,
                                ses_outputShape = out\<rparr>" for p i out
    using assms(2) by (auto simp: ids_below_def split: option.splits)
  show ?thesis
    using createOrtSession_cases [OF c] f n
    by (auto split: option.splits)
qed

theorem filter_update_always_rebuilds_witness:
  "ids_below (running_filter sample_settings)
   \<and> filter_update sample_lib (sample_settings\<lparr>set_threshold := (1, - 2)\<rparr>)
        (running_filter sample_settings)
       = Inr ((running_filter sample_settings)\<lparr>threshold := (1, - 2),
               scalerToBGR := None, scalerFromBGR := None, fresh := 4,
               session := Some \<lparr>ses_id = 3, ses_path = ''/data/SINet_Softmax_simple.onnx'',
                 ses_inputShape = [1, 3, 2, 2], ses_outputShape = [1, 1, 2, 2]\<rparr>\<rparr>)
   \<and> session (running_filter sample_settings)
       = Some \<lparr>ses_id = 0, ses_path = ''/data/SINet_Softmax_simple.onnx'',
                 ses_inputShape = [1, 3, 2, 2], ses_outputShape = [1, 1, 2, 2]\<rparr>"
proof -
  let ?s = "sample_settings\<lparr>set_threshold := (1, - 2)\<rparr>"
  let ?tf = "running_filter sample_settings"
  let ?tf' = "?tf\<lparr>threshold := (1, - 2),
               scalerToBGR := None, scalerFromBGR := None, fresh := 4,
               session := Some \<lparr>ses_id = 3, ses_path = ''/data/SINet_Softmax_simple.onnx'',
                 ses_inputShape = [1, 3, 2, 2], ses_outputShape = [1, 1, 2, 2]\<rparr>\<rparr>"
  have a: "ids_below ?tf" by code_simp
  have b: "filter_update sample_lib ?s ?tf = Inr ?tf'" by code_simp
  have c: "session ?tf = Some \<lparr>ses_id = 0, ses_path = ''/data/SINet_Softmax_simple.onnx'',
                 ses_inputShape = [1, 3, 2, 2], ses_outputShape = [1, 1, 2, 2]\<rparr>"
    by code_simp
  show ?thesis
    using filter_update_always_rebuilds [OF b a] a b c by simp
qed

section \<open>Converters and frame geometry\<close>

text \<open>
  Claim C4, as stated, fails: the render call does not compare the frame with the
  parameters of the converters. The filter that rendered a 2 x 2 BGR frame holds
  converters created for that geometry; on a 4 x 2 I420 frame the same converter
  converts the frame, and both converters are still the same after the render call.
\<close>

theorem stale_converter_used:
  "(width wide_frame, height wide_frame, format wide_frame) = (4, 2, VIDEO_FORMAT_I420)
   \<and> scalerToBGR (running_filter sample_settings)
       = Some \<lparr>vs_id = 1,
               vs_dst = \<lparr>si_format = VIDEO_FORMAT_BGR3, si_width = 2, si_height = 2\<rparr>,
               vs_src = \<lparr>si_format = VIDEO_FORMAT_BGR3, si_width = 2, si_height = 2\<rparr>\<rparr>
   \<and> scalerToBGR (snd (convertFrameToBGR sample_lib wide_frame (running_filter sample_settings)))
       = scalerToBGR (running_filter sample_settings)
   \<and> elems (fst (convertFrameToBGR sample_lib wide_frame (running_filter sample_settings)))
       = video_scaler_to sample_lib
           \<lparr>vs_id = 1,
             vs_dst = \<lparr>si_format = VIDEO_FORMAT_BGR3, si_width = 2, si_height = 2\<rparr>,
             vs_src = \<lparr>si_format = VIDEO_FORMAT_BGR3, si_width = 2, si_height = 2\<rparr>\<rparr>
           wide_frame
   \<and> map_sum id (\<lambda>r. (scalerToBGR (snd r), scalerFromBGR (snd r)))
        (filter_render sample_lib (running_filter sample_settings) wide_frame)
       = Inr (scalerToBGR (running_filter sample_settings),
              scalerFromBGR (running_filter sample_settings))"
  by code_simp

lemma initializeScalers_created:
  "created_for l frame (fresh tf) (initializeScalers l (frame_size frame) (format frame) tf)
   \<and> fresh tf \<le> fresh (initializeScalers l (frame_size frame) (format frame) tf)"
  by (simp add: created_for_def initializeScalers_def destroyScalers_def frame_size_def Let_def)

lemma created_for_cong:
  assumes "created_for l frame n tf" and "scalerToBGR tf' = scalerToBGR tf"
    and "scalerFromBGR tf' = scalerFromBGR tf" and "m \<le> n"
  shows "created_for l frame m tf'"
  using assms by (auto simp: created_for_def Let_def split: option.splits)

lemma convertFrameToBGR_present:
  assumes "scalerToBGR tf = Some sc"
  shows "convertFrameToBGR l frame tf =
           (\<lparr>rows = int (height frame), cols = int (width frame),
             elems = video_scaler_to l sc frame\<rparr>, tf)"
  using assms by (simp add: convertFrameToBGR_def frame_size_def Let_def)

lemma runInference_scalers:
  "runInference l tf = Inr tf2 \<Longrightarrow>
     scalerToBGR tf2 = scalerToBGR tf \<and> scalerFromBGR tf2 = scalerFromBGR tf
     \<and> fresh tf2 = fresh tf"
  by (auto simp: runInference_def split: option.splits)

lemma filter_render_converters:
  assumes "filter_render l tf frame = Inr (frame', tf')"
  shows "(scalerToBGR tf \<noteq> None \<and> scalerFromBGR tf \<noteq> None \<longrightarrow>
            scalerToBGR tf' = scalerToBGR tf \<and> scalerFromBGR tf' = scalerFromBGR tf
            \<and> fresh tf' = fresh tf)
         \<and> (scalerToBGR tf = None \<or> scalerFromBGR tf = None \<longrightarrow>
              created_for l frame (fresh tf) tf')"
proof -
  obtain imageBGR tf1 where s1: "convertFrameToBGR l frame tf = (imageBGR, tf1)"
    by (cases "convertFrameToBGR l frame tf")
  from assms s1 obtain resized tf2 masked where
    s2: "runInference l (tf1\<lparr>inputTensorValues := preprocess tf1 resized\<rparr>) = Inr tf2" and
    s3: "convertBGRToFrame l masked frame tf2 = (frame', tf')"
    by (auto simp: filter_render_def split: sum.splits)
  have t1: "tf1 = (if scalerToBGR tf = None
                   then initializeScalers l (frame_size frame) (format frame) tf else tf)"
    using s1 by (simp add: convertFrameToBGR_def Let_def)
  have t2: "scalerToBGR tf2 = scalerToBGR tf1" "scalerFromBGR tf2 = scalerFromBGR tf1"
    "fresh tf2 = fresh tf1"
    using runInference_scalers [OF s2] by simp_all
  have t3: "tf' = (if scalerFromBGR tf2 = None
                   then initializeScalers l (frame_size frame) (format frame) tf2 else tf2)"
    using s3 by (simp add: convertBGRToFrame_def Let_def)
  show ?thesis
  proof (cases "scalerToBGR tf = None")
    case True
    have c1: "created_for l frame (fresh tf) tf1" and f1: "fresh tf \<le> fresh tf1"
      using initializeScalers_created [of l frame tf] t1 True by simp_all
    have "created_for l frame (fresh tf) tf'"
    proof (cases "scalerFromBGR tf2 = None")
      case True
      have c2: "created_for l frame (fresh tf2) tf'"
        using initializeScalers_created [of l frame tf2] t3 True by simp
      have "fresh tf \<le> fresh tf2" using f1 t2(3) by simp
      then show ?thesis
        by (rule created_for_cong [OF c2 refl refl])
    next
      case False
      have "tf' = tf2" unfolding t3 using False by (rule if_not_P)
      then show ?thesis
        using t2 by (simp add: created_for_cong [OF c1])
    qed
    then show ?thesis using True by simp
  next
    case False
    have e1: "tf1 = tf" unfolding t1 using False by (rule if_not_P)
    show ?thesis
    proof (cases "scalerFromBGR tf = None")
      case True
      then have "scalerFromBGR tf2 = None" using t2 e1 by simp
      then have "created_for l frame (fresh tf2) tf'"
        using initializeScalers_created [of l frame tf2] t3 by simp
      then show ?thesis using True t2 e1 by simp
    next
      case F2: False
      have "scalerFromBGR tf2 \<noteq> None" using F2 t2 e1 by simp
      then have "tf' = tf2" unfolding t3 by (rule if_not_P)
      then show ?thesis using False F2 t2 e1 by auto
    qed
  qed
qed

text \<open>
  Claim C4, amended. A converter that is present when the render call uses it is used as
  it is: the call compares neither width, height nor pixel format with the parameters the
  converter was created with. When both converters are present at the call, a render call
  that returns leaves both as they were and creates nothing. When the converter to BGR is
  absent at the start, or the converter from BGR is absent when the image is written
  back, both converters are destroyed and created anew at that point, for the width,
  height and format of the incoming frame; a creation that fails leaves that converter
  absent.
\<close>

theorem converters_created_only_when_absent:
  "(\<forall>sc. scalerToBGR tf = Some sc \<longrightarrow>
       convertFrameToBGR l frame tf =
         (\<lparr>rows = int (height frame), cols = int (width frame),
           elems = video_scaler_to l sc frame\<rparr>, tf))
   \<and> (\<forall>frame' tf'. filter_render l tf frame = Inr (frame', tf') \<longrightarrow>
         (scalerToBGR tf \<noteq> None \<and> scalerFromBGR tf \<noteq> None \<longrightarrow>
            scalerToBGR tf' = scalerToBGR tf \<and> scalerFromBGR tf' = scalerFromBGR tf
            \<and> fresh tf' = fresh tf)
         \<and> (scalerToBGR tf = None \<or> scalerFromBGR tf = None \<longrightarrow>
              created_for l frame (fresh tf) tf'))"
proof (intro conjI allI impI)
  fix sc assume "scalerToBGR tf = Some sc"
  then show "convertFrameToBGR l frame tf =
         (\<lparr>rows = int (height frame), cols = int (width frame),
           elems = video_scaler_to l sc frame\<rparr>, tf)"
    by (rule convertFrameToBGR_present)
next
  fix frame' tf'
  assume r: "filter_render l tf frame = Inr (frame', tf')"
    and p: "scalerToBGR tf \<noteq> None \<and> scalerFromBGR tf \<noteq> None"
  show "scalerToBGR tf' = scalerToBGR tf"
    using filter_render_converters [OF r] p by simp
  show "scalerFromBGR tf' = scalerFromBGR tf"
    using filter_render_converters [OF r] p by simp
  show "fresh tf' = fresh tf"
    using filter_render_converters [OF r] p by simp
next
  fix frame' tf'
  assume r: "filter_render l tf frame = Inr (frame', tf')"
    and p: "scalerToBGR tf = None \<or> scalerFromBGR tf = None"
  show "created_for l frame (fresh tf) tf'"
    using filter_render_converters [OF r] p by simp
qed

theorem converters_created_only_when_absent_witness:
  "scalerToBGR (created_filter sample_settings) = None
   \<and> fresh (created_filter sample_settings) = 1
   \<and> map_sum id (\<lambda>r. (scalerToBGR (snd r), scalerFromBGR (snd r)))
        (filter_render sample_lib (created_filter sample_settings) wide_frame)
       = Inr (Some \<lparr>vs_id = 1,
                 vs_dst = \<lparr>si_format = VIDEO_FORMAT_BGR3, si_width = 4, si_height = 2\<rparr>,
                 vs_src = \<lparr>si_format = VIDEO_FORMAT_I420, si_width = 4, si_height = 2\<rparr>\<rparr>,
              Some \<lparr>vs_id = 2,
                 vs_dst = \<lparr>si_format = VIDEO_FORMAT_I420, si_width = 4, si_height = 2\<rparr>,
                 vs_src = \<lparr>si_format = VIDEO_FORMAT_BGR3, si_width = 4, si_height = 2\<rparr>\<rparr>)
   \<and> map_sum id (\<lambda>r. created_for sample_lib wide_frame 1 (snd r))
        (filter_render sample_lib (created_filter sample_settings) wide_frame) = Inr True
   \<and> map_sum id (\<lambda>r. (scalerToBGR (snd r), scalerFromBGR (snd r)))
        (filter_render (sample_lib\<lparr>video_scaler_create :=
                          (\<lambda>dst src. si_format dst = VIDEO_FORMAT_BGR3)\<rparr>)
           (created_filter sample_settings) wide_frame)
       = Inr (Some \<lparr>vs_id = 2,
                 vs_dst = \<lparr>si_format = VIDEO_FORMAT_BGR3, si_width = 4, si_height = 2\<rparr>,
                 vs_src = \<lparr>si_format = VIDEO_FORMAT_I420, si_width = 4, si_height = 2\<rparr>\<rparr>,
              None)"
proof -
  let ?tf = "created_filter sample_settings"
  have a: "scalerToBGR ?tf = None" by code_simp
  have b: "fresh ?tf = 1" by code_simp
  have c: "map_sum id (\<lambda>r. (scalerToBGR (snd r), scalerFromBGR (snd r)))
        (filter_render sample_lib ?tf wide_frame)
       = Inr (Some \<lparr>vs_id = 1,
                 vs_dst = \<lparr>si_format = VIDEO_FORMAT_BGR3, si_width = 4, si_height = 2\<rparr>,
                 vs_src = \<lparr>si_format = VIDEO_FORMAT_I420, si_width = 4, si_height = 2\<rparr>\<rparr>,
              Some \<lparr>vs_id = 2,
                 vs_dst = \<lparr>si_format = VIDEO_FORMAT_I420, si_width = 4, si_height = 2\<rparr>,
                 vs_src = \<lparr>si_format = VIDEO_FORMAT_BGR3, si_width = 4, si_height = 2\<rparr>\<rparr>)"
    by code_simp
  have d: "map_sum id (\<lambda>r. (scalerToBGR (snd r), scalerFromBGR (snd r)))
        (filter_render (sample_lib\<lparr>video_scaler_create :=
                          (\<lambda>dst src. si_format dst = VIDEO_FORMAT_BGR3)\<rparr>)
           ?tf wide_frame)
       = Inr (Some \<lparr>vs_id = 2,
                 vs_dst = \<lparr>si_format = VIDEO_FORMAT_BGR3, si_width = 4, si_height = 2\<rparr>,
                 vs_src = \<lparr>si_format = VIDEO_FORMAT_I420, si_width = 4, si_height = 2\<rparr>\<rparr>,
              None)"
    by code_simp
  obtain frame' tf' where r: "filter_render sample_lib ?tf wide_frame = Inr (frame', tf')"
    using c by (cases "filter_render sample_lib ?tf wide_frame") auto
  have "created_for sample_lib wide_frame (fresh ?tf) tf'"
    using converters_created_only_when_absent [of ?tf sample_lib wide_frame] a r by blast
  then have e: "map_sum id (\<lambda>r. created_for sample_lib wide_frame 1 (snd r))
        (filter_render sample_lib ?tf wide_frame) = Inr True"
    using b r by simp
  show ?thesis
    using a b c d e by simp
qed

section \<open>Contour filtering\<close>

text \<open>
  Claim C6, as stated, fails twice. The area compared is not the pixel area of a region
  but \<open>cv::contourArea\<close> of its contour, the area of the polygon through the contour
  points: the region of \<open>sample_mask\<close> has 7 pixels and its contour has area \<open>5 / 2\<close>.
  With \<open>contourFilter = 1 / 8\<close> the product with the 28 mask pixels is \<open>7 / 2\<close>, the pixel
  area 7 is above it, and the region is dropped all the same, leaving an empty mask.
  And the threshold is cast to an integer before the comparison: with
  \<open>contourFilter = 3 / 32\<close> the product is \<open>21 / 8\<close>, the contour area \<open>5 / 2\<close> is below it,
  and the contour is kept, because the threshold compared with is 2.
\<close>

theorem contour_filter_differs_from_claim:
  "pixel_area_of_single_region sample_mask = 7
   \<and> contourArea sample_contour = 5 / 2
   \<and> of_int (mat_total sample_mask) * dy_val (1, - 3) = 7 / 2
   \<and> contourSizeThreshold (zeroed_filter\<lparr>contourFilter := (1, - 3)\<rparr>) sample_mask = 3
   \<and> filterContours (zeroed_filter\<lparr>contourFilter := (1, - 3)\<rparr>) sample_mask [sample_contour]
       = []
   \<and> contourStep (sample_lib\<lparr>cv_findContours := (\<lambda>m. [sample_contour])\<rparr>)
        (zeroed_filter\<lparr>contourFilter := (1, - 3)\<rparr>) sample_mask
       = \<lparr>rows = 4, cols = 7, elems = replicate 28 0\<rparr>
   \<and> of_int (mat_total sample_mask) * dy_val (3, - 5) = 21 / 8
   \<and> contourSizeThreshold (zeroed_filter\<lparr>contourFilter := (3, - 5)\<rparr>) sample_mask = 2
   \<and> filterContours (zeroed_filter\<lparr>contourFilter := (3, - 5)\<rparr>) sample_mask [sample_contour]
       = [sample_contour]"
  by code_simp

text \<open>
  Claim C6, amended. When \<open>0 < contourFilter < 1\<close>, the mask postprocessing finds the
  contours of the thresholded mask at the native scale of the model output, computes the
  threshold as the single-precision product of the number of mask pixels and
  \<open>contourFilter\<close> cast to an integer, clears the mask and draws, filled, exactly the
  contours whose \<open>cv::contourArea\<close> is strictly above that integer; the contours whose
  \<open>cv::contourArea\<close> is at or below it are dropped. The mask drawn is what the resize to
  the frame size receives.
\<close>

theorem postprocess_filters_contours_by_truncated_area:
  assumes "0 < dy_val (contourFilter tf)" and "dy_val (contourFilter tf) < 1"
    and "outputImage tf = Inr out"
  shows "rows (thresholdMask tf out) = rows out \<and> cols (thresholdMask tf out) = cols out
         \<and> postprocess l tf frameSize =
             (case cv_resize (interp_mask l)
                     (cv_drawContours l
                        ((thresholdMask tf out)\<lparr>elems :=
                            map (\<lambda>_. 0) (elems (thresholdMask tf out))\<rparr>)
                        (filter
                           (\<lambda>c. of_int (float_to_int64
                                   (f32_mul (f32_of_int (rows out * cols out)) (contourFilter tf)))
                                 < contourArea c)
                           (cv_findContours l (thresholdMask tf out))))
                     frameSize of
                Inl e \<Rightarrow> Inl e
              | Inr resized \<Rightarrow> smoothStep l tf resized)
         \<and> (\<forall>c \<in> set (cv_findContours l (thresholdMask tf out)).
               c \<in> set (filterContours tf (thresholdMask tf out)
                          (cv_findContours l (thresholdMask tf out)))
               \<longleftrightarrow> of_int (float_to_int64
                       (f32_mul (f32_of_int (rows out * cols out)) (contourFilter tf)))
                     < contourArea c)"
proof -
  have sz: "rows (thresholdMask tf out) = rows out \<and> cols (thresholdMask tf out) = cols out"
    by (simp add: thresholdMask_def mat_compare_def)
  have thr: "contourSizeThreshold tf (thresholdMask tf out)
               = float_to_int64 (f32_mul (f32_of_int (rows out * cols out)) (contourFilter tf))"
    using sz by (simp add: contourSizeThreshold_def mat_total_def)
  have cs: "contourStep l tf (thresholdMask tf out) =
              cv_drawContours l
                ((thresholdMask tf out)\<lparr>elems := map (\<lambda>_. 0) (elems (thresholdMask tf out))\<rparr>)
                (filter
                   (\<lambda>c. of_int (float_to_int64
                           (f32_mul (f32_of_int (rows out * cols out)) (contourFilter tf)))
                         < contourArea c)
                   (cv_findContours l (thresholdMask tf out)))"
    using assms(1,2) by (simp add: contourStep_def filterContours_def thr setTo_zero_def)
  have pp: "postprocess l tf frameSize =
              (case cv_resize (interp_mask l) (contourStep l tf (thresholdMask tf out)) frameSize of
                 Inl e \<Rightarrow> Inl e
               | Inr resized \<Rightarrow> smoothStep l tf resized)"
    using assms(3) by (simp add: postprocess_def)
  have mem: "\<forall>c \<in> set (cv_findContours l (thresholdMask tf out)).
               c \<in> set (filterContours tf (thresholdMask tf out)
                          (cv_findContours l (thresholdMask tf out)))
               \<longleftrightarrow> of_int (float_to_int64
                       (f32_mul (f32_of_int (rows out * cols out)) (contourFilter tf)))
                     < contourArea c"
    by (simp add: filterContours_def thr)
  show ?thesis
    using sz mem pp [unfolded cs] by (intro conjI) simp_all
qed

theorem postprocess_filters_contours_by_truncated_area_witness:
  "0 < dy_val (contourFilter ((running_filter sample_settings)
        \<lparr>contourFilter := (1, - 1), outputTensorValues := [1, 1, 1, 1]\<rparr>))
   \<and> dy_val (contourFilter ((running_filter sample_settings)
        \<lparr>contourFilter := (1, - 1), outputTensorValues := [1, 1, 1, 1]\<rparr>)) < 1
   \<and> thresholdMask ((running_filter sample_settings)
        \<lparr>contourFilter := (1, - 1), outputTensorValues := [1, 1, 1, 1]\<rparr>)
        \<lparr>rows = 2, cols = 2, elems = [1, 1, 1, 1]\<rparr> = constant_mask 2 2 255
   \<and> float_to_int64 (f32_mul (f32_of_int (2 * 2)) (1, - 1)) = 2
   \<and> contourArea [(0, 0), (0, 1), (1, 1), (1, 0)] = 1
   \<and> postprocess border_lib ((running_filter sample_settings)
        \<lparr>contourFilter := (1, - 1), outputTensorValues := [1, 1, 1, 1]\<rparr>)
        \<lparr>sz_width = 2, sz_height = 2\<rparr> = Inr (constant_mask 2 2 0)"
proof -
  let ?tf = "(running_filter sample_settings)
        \<lparr>contourFilter := (1, - 1), outputTensorValues := [1, 1, 1, 1]\<rparr>"
  let ?out = "\<lparr>rows = 2, cols = 2, elems = [1, 1, 1, 1]\<rparr> :: rat Mat"
  have a: "0 < dy_val (contourFilter ?tf)" by code_simp
  have b: "dy_val (contourFilter ?tf) < 1" by code_simp
  have c: "outputImage ?tf = Inr ?out" by code_simp
  have d: "thresholdMask ?tf ?out = constant_mask 2 2 255" by code_simp
  have e: "float_to_int64 (f32_mul (f32_of_int (2 * 2)) (1, - 1)) = 2" by code_simp
  have f: "contourArea [(0, 0), (0, 1), (1, 1), (1, 0)] = 1" by code_simp
  have g: "(case cv_resize (interp_mask border_lib)
                     (cv_drawContours border_lib
                        ((thresholdMask ?tf ?out)\<lparr>elems :=
                            map (\<lambda>_. 0) (elems (thresholdMask ?tf ?out))\<rparr>)
                        (filter
                           (\<lambda>c. of_int (float_to_int64
                                   (f32_mul (f32_of_int (rows ?out * cols ?out)) (contourFilter ?tf)))
                                 < contourArea c)
                           (cv_findContours border_lib (thresholdMask ?tf ?out))))
                     \<lparr>sz_width = 2, sz_height = 2\<rparr> of
                Inl e \<Rightarrow> Inl e
              | Inr resized \<Rightarrow> smoothStep border_lib ?tf resized) = Inr (constant_mask 2 2 0)"
    by code_simp
  show ?thesis
    using postprocess_filters_contours_by_truncated_area [OF a b c, of border_lib
            "\<lparr>sz_width = 2, sz_height = 2\<rparr>"] a b d e f g
    by simp
qed

lemma setTo_zero_eq:
  "rows m' = rows m \<Longrightarrow> cols m' = cols m \<Longrightarrow> length (elems m') = length (elems m)
     \<Longrightarrow> setTo_zero m' = setTo_zero (m :: uchar Mat)"
  by (cases m, cases m') (simp add: setTo_zero_def map_replicate_const)

text \<open>
  Filtering a filtered mask again gives the same mask whenever the library finds, in the
  mask it has just drawn, the contours it drew, and drawing keeps the size of the mask.
  Whether \<open>cv::findContours\<close> and \<open>cv::drawContours\<close> do so is a property of OpenCV, not
  of the filter.
\<close>

lemma contourStep_idempotent_if_contours_refound:
  assumes en: "0 < dy_val (contourFilter tf) \<and> dy_val (contourFilter tf) < 1"
    and refound: "cv_findContours l (contourStep l tf m)
                    = filterContours tf m (cv_findContours l m)"
    and shape: "rows (contourStep l tf m) = rows m \<and> cols (contourStep l tf m) = cols m
                \<and> length (elems (contourStep l tf m)) = length (elems m)"
  shows "contourStep l tf (contourStep l tf m) = contourStep l tf m"
proof -
  let ?m' = "contourStep l tf m"
  have t: "contourSizeThreshold tf ?m' = contourSizeThreshold tf m"
    using shape by (simp add: contourSizeThreshold_def mat_total_def)
  have f: "filterContours tf ?m' (cv_findContours l ?m') = filterContours tf m (cv_findContours l m)"
    by (simp add: refound filterContours_def t)
  have z: "setTo_zero ?m' = setTo_zero m"
    using shape by (intro setTo_zero_eq) simp_all
  have "contourStep l tf ?m' = cv_drawContours l (setTo_zero ?m')
          (filterContours tf ?m' (cv_findContours l ?m'))"
    using en by (simp add: contourStep_def)
  also have "\<dots> = cv_drawContours l (setTo_zero m) (filterContours tf m (cv_findContours l m))"
    by (simp only: f z)
  also have "\<dots> = ?m'" using en by (simp add: contourStep_def)
  finally show ?thesis .
qed

section \<open>Mask polarity\<close>
















section \<open>The kernel size for small smoothing values\<close>

text \<open>
  Claim C10, as stated, fails at one value: the \<open>float\<close> nearest to 0.01, which is
  \<open>10737418 * 2 ^ - 30\<close> and lies below 0.01. It is the value the field holds when the
  setting is the \<open>double\<close> 0.01 (\<open>5764607523034235 * 2 ^ - 59\<close>). The exact product
  with 100 is \<open>1073741800 * 2 ^ - 30\<close>; a significand of 24 bits keeps the multiples of
  64 there, and \<open>1073741800 = 16777215 * 64 + 40\<close> rounds up to \<open>16777216 * 64\<close>, which
  is 1. The kernel size is 1, not 0.
\<close>

theorem k_size_one_at_f32_hundredth:
  "is_f32 (10737418, - 30) \<and> 0 < dy_val (10737418, - 30) \<and> dy_val (10737418, - 30) < 1 / 100
   \<and> f32_round (5764607523034235, - 59) = (10737418, - 30)
   \<and> f32_mul (f32_of_int 100) (10737418, - 30) = (16777216, - 24)
   \<and> k_size (zeroed_filter\<lparr>smoothContour := (10737418, - 30)\<rparr>) = 1"
  by code_simp

text \<open>Rounding to nearest moves a value by at most half a unit in the last place.\<close>

lemma f32_round_below_one:
  assumes M: "0 < M" and y: "dy_val (M, e) \<le> 1073741700 / 2 ^ 30"
  shows "0 \<le> fst (f32_round (M, e)) \<and> dy_val (f32_round (M, e)) < 1"
proof -
  define n where "n = bitlen \<bar>M\<bar>"
  define s where "s = max (n - 24) (- 149 - e)"
  have fr: "f32_round (M, e) = (if s \<le> 0 then (M, e) else (rne M (nat s), e + s))"
    by (simp add: f32_round_def s_def n_def Let_def)
  show ?thesis
  proof (cases "s \<le> 0")
    case True
    have "dy_val (M, e) < 1" using y by simp
    then show ?thesis using True fr M by simp
  next
    case False
    then have spos: "0 < s" by simp
    let ?r = "rne M (nat s)"
    have r0: "0 \<le> ?r" using M by (simp add: rne_nonneg)
    have p: "(2::rat) powi (e + s) = 2 powi e * 2 ^ nat s"
      using spos by (simp add: power_int_add power_int_nonneg_exp)
    have h: "(2::rat) powi (e + s) * (1 / 2) = 2 powi (e + s - 1)"
      by (simp add: power_int_diff)
    have "dy_val (?r, e + s) = of_int ?r * 2 powi (e + s)" by (rule dy_val_powi)
    also have "\<dots> \<le> (of_int M / 2 ^ nat s + 1 / 2) * 2 powi (e + s)"
      by (intro mult_right_mono rne_upper) simp
    also have "\<dots> = of_int M * 2 powi e + 2 powi (e + s - 1)"
      by (simp add: p h [symmetric] field_simps)
    finally have ub: "dy_val (?r, e + s) \<le> dy_val (M, e) + 2 powi (e + s - 1)"
      by (simp add: dy_val_powi)
    have half: "(2::rat) powi (e + s - 1) \<le> dy_val (M, e) / 2 ^ 24 \<or> (2::rat) powi (e + s - 1) = 2 powi (- 150)"
    proof (cases "- 149 - e \<le> n - 24")
      case True
      then have se: "s = n - 24" by (simp add: s_def)
      have npos: "0 < n" using spos se by simp
      have "2 ^ nat (n - 1) \<le> M"
        using bitlen_bounds [of "\<bar>M\<bar>"] M by (simp add: n_def)
      then have "(of_int (2 ^ nat (n - 1)) :: rat) \<le> of_int M" by (simp only: of_int_le_iff)
      then have "(2::rat) powi (n - 1) \<le> of_int M"
        using npos by (simp add: power_int_nonneg_exp)
      then have "(2::rat) powi (n - 1) * 2 powi e \<le> of_int M * 2 powi e"
        by (intro mult_right_mono) simp_all
      then have "(2::rat) powi (n - 1 + e) \<le> dy_val (M, e)"
        by (simp add: power_int_add dy_val_powi)
      then have "(2::rat) powi (n - 1 + e) / 2 ^ 24 \<le> dy_val (M, e) / 2 ^ 24"
        by (simp add: divide_right_mono)
      moreover have "(2::rat) powi (e + s - 1) = 2 powi (n - 1 + e) / 2 ^ 24"
      proof -
        have eq: "e + s - 1 = (n - 1 + e) - 24" using se by simp
        have "(2::rat) powi (e + s - 1) = 2 powi ((n - 1 + e) - 24)" by (simp only: eq)
        also have "\<dots> = 2 powi (n - 1 + e) / 2 powi 24" by (rule power_int_diff) simp
        also have "(2::rat) powi 24 = 2 ^ 24" by simp
        finally show ?thesis .
      qed
      ultimately show ?thesis by simp
    next
      case False
      then have "s = - 149 - e" by (simp add: s_def)
      then have "e + s - 1 = - 150" by simp
      then have "(2::rat) powi (e + s - 1) = 2 powi (- 150)" by (simp only:)
      then show ?thesis by (rule disjI2)
    qed
    have "dy_val (?r, e + s) < 1"
    proof -
      from half show ?thesis
      proof
        assume a: "(2::rat) powi (e + s - 1) \<le> dy_val (M, e) / 2 ^ 24"
        have "dy_val (M, e) + dy_val (M, e) / 2 ^ 24
                \<le> 1073741700 / 2 ^ 30 + (1073741700 / 2 ^ 30) / 2 ^ 24"
          using y by (intro add_mono divide_right_mono) simp_all
        also have "\<dots> < 1" by simp
        finally show ?thesis using ub a by linarith
      next
        assume a: "(2::rat) powi (e + s - 1) = 2 powi (- 150)"
        have "(2::rat) powi (- 150) \<le> 2 powi (- 25)"
          by (intro power_int_increasing) simp_all
        also have "\<dots> = 1 / 2 ^ 25" by (simp add: power_int_minus_divide)
        finally have "(2::rat) powi (e + s - 1) \<le> 1 / 2 ^ 25" using a by simp
        moreover have "(1073741700 :: rat) / 2 ^ 30 + 1 / 2 ^ 25 < 1" by simp
        ultimately show ?thesis using ub y by linarith
      qed
    qed
    then show ?thesis using False fr r0 by simp
  qed
qed

lemma below_f32_hundredth:
  assumes f: "\<bar>m\<bar> < 2 ^ 24" and lt: "dy_val (m, e) < dy_val (10737418, - 30)"
  shows "dy_val (m, e) \<le> 10737417 / 2 ^ 30"
proof (cases "- 30 \<le> e")
  case True
  define k where "k = m * 2 ^ nat (e + 30)"
  have "(2::rat) powi e = 2 powi (e + 30) / 2 ^ 30"
    by (simp add: power_int_add)
  also have "\<dots> = 2 ^ nat (e + 30) / 2 ^ 30"
    using True by (simp add: power_int_nonneg_exp)
  finally have v: "dy_val (m, e) = of_int k / 2 ^ 30"
    by (simp add: dy_val_powi k_def)
  have "dy_val (10737418, - 30) = 10737418 / 2 ^ 30" by (simp add: dy_val_def)
  then have "(of_int k :: rat) < 10737418" using lt v by (simp add: field_simps)
  then have "(of_int k :: rat) < of_int 10737418" by simp
  then have "k < 10737418" by (simp only: of_int_less_iff)
  then have "k \<le> 10737417" by simp
  then have "(of_int k :: rat) \<le> of_int 10737417" by (simp only: of_int_le_iff)
  then show ?thesis using v by (simp add: field_simps)
next
  case False
  then have e: "e \<le> - 31" by simp
  have "(2::rat) powi e \<le> 2 powi (- 31)"
    using e by (intro power_int_increasing) simp_all
  then have p: "(2::rat) powi e \<le> 1 / 2 ^ 31" by (simp add: power_int_minus_divide)
  have "m \<le> 2 ^ 24" using f by simp
  then have "(of_int m :: rat) \<le> of_int (2 ^ 24)" by (simp only: of_int_le_iff)
  then have m: "(of_int m :: rat) \<le> 2 ^ 24" by simp
  have "dy_val (m, e) \<le> 2 ^ 24 * (1 / 2 ^ 31)"
  proof (cases "0 \<le> m")
    case True
    have "of_int m * (2::rat) powi e \<le> 2 ^ 24 * (1 / 2 ^ 31)"
      using m p True by (intro mult_mono) simp_all
    then show ?thesis by (simp add: dy_val_powi)
  next
    case False
    then have "(of_int m :: rat) \<le> 0" by simp
    then have "of_int m * (2::rat) powi e \<le> 0"
      by (intro mult_nonpos_nonneg) simp_all
    then show ?thesis by (simp add: dy_val_powi)
  qed
  also have "\<dots> \<le> (10737417 :: rat) / 2 ^ 30" by simp
  finally show ?thesis .
qed

text \<open>
  Claim C10, amended. For every \<open>float\<close> value of \<open>smoothContour\<close> above 0 and below
  the \<open>float\<close> nearest to 0.01 (\<open>10737418 * 2 ^ - 30\<close>), the smoothing branch is taken,
  the kernel size \<open>(int)(100 * smoothContour)\<close> is 0 and the box filter is called with
  the kernel size 0; no guard of the source excludes these values.
\<close>

theorem k_size_zero_below_f32_hundredth:
  assumes f: "is_f32 (smoothContour tf)"
    and pos: "0 < dy_val (smoothContour tf)"
    and lt: "dy_val (smoothContour tf) < dy_val (10737418, - 30)"
  shows "k_size tf = 0
         \<and> smoothStep l tf m =
             (case cv_boxFilter l m 0 of
                None \<Rightarrow> Inl CvError
              | Some blurred \<Rightarrow> Inr (mat_compare (\<lambda>v. 128 < v) blurred))"
proof -
  obtain sm se where sc: "smoothContour tf = (sm, se)" by (cases "smoothContour tf")
  have ab: "\<bar>sm\<bar> < 2 ^ 24" using f sc by (simp add: is_f32_def)
  have p0: "0 < of_int sm * (2::rat) powi se" using pos sc by (simp add: dy_val_powi)
  have p2: "0 < (2::rat) powi se" by simp
  have "0 < (of_int sm :: rat)" using zero_less_mult_pos2 [OF p0 p2] .
  then have smpos: "0 < sm" by simp
  have le: "dy_val (sm, se) \<le> 10737417 / 2 ^ 30"
    using below_f32_hundredth [OF ab] lt sc by simp
  have "dy_val (100 * sm, se) = 100 * dy_val (sm, se)"
    using dy_val_scale [of 100 sm se] by simp
  also have "\<dots> \<le> 100 * (10737417 / 2 ^ 30)" using le by simp
  also have "\<dots> = 1073741700 / 2 ^ 30" by simp
  finally have y: "dy_val (100 * sm, se) \<le> 1073741700 / 2 ^ 30" .
  have M: "0 < 100 * sm" using smpos by simp
  obtain r e' where fr: "f32_round (100 * sm, se) = (r, e')"
    by (cases "f32_round (100 * sm, se)")
  have "0 \<le> r \<and> dy_val (r, e') < 1"
    using f32_round_below_one [OF M y] fr by simp
  then have "trunc_to_int (r, e') = 0" by (simp add: trunc_to_int_zero)
  then have k: "k_size tf = 0"
    by (simp add: k_size_def float_to_int32_def f32_mul_def f32_of_int_100 sc fr)
  show ?thesis using k pos by (simp add: smoothStep_def)
qed

theorem k_size_zero_below_f32_hundredth_witness:
  "is_f32 (smoothContour (zeroed_filter\<lparr>smoothContour := (10737417, - 30)\<rparr>))
   \<and> 0 < dy_val (smoothContour (zeroed_filter\<lparr>smoothContour := (10737417, - 30)\<rparr>))
   \<and> dy_val (smoothContour (zeroed_filter\<lparr>smoothContour := (10737417, - 30)\<rparr>))
       < dy_val (10737418, - 30)
   \<and> k_size (zeroed_filter\<lparr>smoothContour := (10737417, - 30)\<rparr>) = 0
   \<and> smoothStep sample_lib (zeroed_filter\<lparr>smoothContour := (10737417, - 30)\<rparr>)
        \<lparr>rows = 1, cols = 1, elems = [255]\<rparr> = Inl CvError"
proof -
  let ?tf = "zeroed_filter\<lparr>smoothContour := (10737417, - 30)\<rparr>"
  have a: "is_f32 (smoothContour ?tf)" by code_simp
  have b: "0 < dy_val (smoothContour ?tf)" by code_simp
  have c: "dy_val (smoothContour ?tf) < dy_val (10737418, - 30)" by code_simp
  have d: "cv_boxFilter sample_lib \<lparr>rows = 1, cols = 1, elems = [255]\<rparr> 0 = None"
    by code_simp
  show ?thesis
    using k_size_zero_below_f32_hundredth [OF a b c, of sample_lib "\<lparr>rows = 1, cols = 1, elems = [255]\<rparr>"]
      a b c d by simp
qed

end
